theory Spec2Isabelle
  imports Main "HOL-Library.Sublist" "HOL-Library.Word"
begin

unbundle bit_operations_syntax

section \<open>Errors\<close>

text \<open>
  Go errors as values.  \<open>Errno\<close> stands for an error of the operating system,
  \<open>Msg\<close> for \<open>errors.New\<close> and for \<open>fmt.Errorf\<close> without \<open>%w\<close>,
  \<open>Wrap\<close> for \<open>fmt.Errorf("...: %w", err)\<close> and \<open>Joined\<close> for the value
  built by \<open>errors.Join\<close>.
\<close>

datatype errno = ENOENT | EEXIST | ENOTDIR | EISDIR | EACCES | ELOOP | EIO | EXLINK

datatype error =
    Errno errno
  | Msg string
  | Wrap string error
  | Joined "error list"

section \<open>Paths: the functions of path/filepath that the program calls (Unix)\<close>

text \<open>
  Path strings are Go strings: byte lists.  \<open>splitSlash\<close> cuts a string at every
  separator, keeping empty pieces; \<open>joinSlash\<close> puts pieces together again.
\<close>

fun splitSlash :: "string \<Rightarrow> string list" where
  "splitSlash [] = [[]]"
| "splitSlash (c # cs) =
     (if c = CHR ''/'' then [] # splitSlash cs
      else (c # hd (splitSlash cs)) # tl (splitSlash cs))"

fun joinSlash :: "string list \<Rightarrow> string" where
  "joinSlash [] = []"
| "joinSlash [x] = x"
| "joinSlash (x # y # ys) = x @ ''/'' @ joinSlash (y # ys)"

definition IsAbs :: "string \<Rightarrow> bool" where
  "IsAbs p = (case p of [] \<Rightarrow> False | c # _ \<Rightarrow> c = CHR ''/'')"

text \<open>
  \<open>filepath.Clean\<close>: separators are collapsed, \<open>.\<close> elements dropped, an inner
  \<open>..\<close> removes the element before it, a \<open>..\<close> at the start of a rooted path is
  dropped and one at the start of a relative path is kept; the empty result is \<open>.\<close>.
  The elements kept so far are held in reverse (the last one first).
\<close>

definition cleanStep :: "bool \<Rightarrow> string list \<Rightarrow> string \<Rightarrow> string list" where
  "cleanStep rooted stack c =
     (if c = [] \<or> c = ''.'' then stack
      else if c = ''..'' then
        (case stack of
           [] \<Rightarrow> (if rooted then [] else [''..''])
         | t # ts \<Rightarrow> (if t = ''..'' then ''..'' # t # ts else ts))
      else c # stack)"

definition cleanElems :: "bool \<Rightarrow> string list \<Rightarrow> string list" where
  "cleanElems rooted cs = rev (foldl (cleanStep rooted) [] cs)"

definition Clean :: "string \<Rightarrow> string" where
  "Clean p =
     (let out = cleanElems (IsAbs p) (splitSlash p) in
      if IsAbs p then ''/'' @ joinSlash out
      else if out = [] then ''.'' else joinSlash out)"

text \<open>\<open>filepath.Join\<close> of two elements: empty elements before the first non-empty one
  are ignored, the rest is joined with separators and cleaned.\<close>

definition Join :: "string \<Rightarrow> string \<Rightarrow> string" where
  "Join a b =
     (if a \<noteq> [] then Clean (a @ ''/'' @ b)
      else if b \<noteq> [] then Clean b
      else [])"

text \<open>\<open>filepath.Dir\<close>: everything up to the last separator, cleaned.\<close>

definition Dir :: "string \<Rightarrow> string" where
  "Dir p = Clean (rev (dropWhile (\<lambda>c. c \<noteq> CHR ''/'') (rev p)))"

text \<open>\<open>filepath.Base\<close>: the last element, trailing separators removed first.\<close>

definition Base :: "string \<Rightarrow> string" where
  "Base p =
     (if p = [] then ''.''
      else
        (let stripped = rev (dropWhile (\<lambda>c. c = CHR ''/'') (rev p));
             lastElem = rev (takeWhile (\<lambda>c. c \<noteq> CHR ''/'') (rev stripped))
         in if lastElem = [] then ''/'' else lastElem))"

text \<open>\<open>strings.HasPrefix\<close>.\<close>

definition HasPrefix :: "string \<Rightarrow> string \<Rightarrow> bool" where
  "HasPrefix s pre = (length pre \<le> length s \<and> take (length pre) s = pre)"

section \<open>The process environment\<close>

text \<open>
  What \<open>os.UserHomeDir\<close> and \<open>os.Getwd\<close> return in the running process.
\<close>

record environment =
  UserHomeDir :: "error + string"
  Getwd :: "error + string"

text \<open>\<open>filepath.Abs\<close>: an absolute path is cleaned, any other path is joined to the
  working directory; it fails when the working directory cannot be read.\<close>

definition Abs :: "environment \<Rightarrow> string \<Rightarrow> error + string" where
  "Abs env p =
     (if IsAbs p then Inr (Clean p)
      else (case Getwd env of
              Inl e \<Rightarrow> Inl e
            | Inr wd \<Rightarrow> Inr (Join wd p)))"

section \<open>normalizePath and generateFilename\<close>

definition normalizePath :: "environment \<Rightarrow> string \<Rightarrow> error + string" where
  "normalizePath env path =
     (if length path > 1 \<and> take 2 path = ''~/'' then
        (case UserHomeDir env of
           Inl e \<Rightarrow> Inl (Wrap ''failed to get home dir'' e)
         | Inr home \<Rightarrow>
             (case Abs env (Join home (drop 2 path)) of
                Inl e \<Rightarrow> Inl (Wrap ''failed to get absolute path'' e)
              | Inr absPath \<Rightarrow> Inr absPath))
      else
        (case Abs env path of
           Inl e \<Rightarrow> Inl (Wrap ''failed to get absolute path'' e)
         | Inr absPath \<Rightarrow> Inr absPath))"

text \<open>
  \<open>generateFilename\<close> formats the base name, a dash, the hexadecimal SHA-256 digest of
  the path and the extension.  The digest is computed by crypto/sha256, which is not
  part of the repository: it is the parameter \<open>sha256hex\<close>.
\<close>

definition generateFilename :: "(string \<Rightarrow> string) \<Rightarrow> string \<Rightarrow> string" where
  "generateFilename sha256hex path = Base path @ ''-'' @ sha256hex path @ ''.tar.gz''"

section \<open>The archive writer and its Close\<close>

text \<open>
  \<open>errors.Join\<close>: nil values are discarded; the result is nil when every value is
  nil, and otherwise one error that holds the remaining ones in their order.
\<close>

definition errors_Join :: "error option list \<Rightarrow> error option" where
  "errors_Join errs =
     (let es = List.map_filter id errs in
      if es = [] then None else Some (Joined es))"

datatype layer = TarLayer | GzipLayer | FileLayer

record header =
  Name :: string
  Typeflag :: char
  Mode :: "64 word"
  Size :: int
  Linkname :: string

type_synonym entry = "header \<times> string"

text \<open>
  An \<open>ArchiveWriter\<close> holds the tar writer, the gzip writer and the file.  The model
  keeps the path of the file, the entries written so far, what each layer's \<open>Close\<close>
  is going to return, and the order in which layers have been closed.
\<close>

record ArchiveWriter =
  awPath :: string
  awEntries :: "entry list"
  tarCloseErr :: "error option"
  gzipCloseErr :: "error option"
  fileCloseErr :: "error option"
  closedLayers :: "layer list"

definition closeLayer :: "layer \<Rightarrow> ArchiveWriter \<Rightarrow> ArchiveWriter \<times> error option" where
  "closeLayer l w =
     (w\<lparr>closedLayers := closedLayers w @ [l]\<rparr>,
      (case l of TarLayer \<Rightarrow> tarCloseErr w
               | GzipLayer \<Rightarrow> gzipCloseErr w
               | FileLayer \<Rightarrow> fileCloseErr w))"

text \<open>\<open>Close\<close> as written with \<open>errors.Join\<close> (its arguments are evaluated from left to
  right).\<close>

definition Close :: "ArchiveWriter \<Rightarrow> ArchiveWriter \<times> error option" where
  "Close w =
     (let (w1, e1) = closeLayer TarLayer w;
          (w2, e2) = closeLayer GzipLayer w1;
          (w3, e3) = closeLayer FileLayer w2
      in (w3, errors_Join [e1, e2, e3]))"

text \<open>\<open>Close\<close> of internal/backup/data.go, which keeps one \<open>output\<close> variable.\<close>

definition Close_data :: "ArchiveWriter \<Rightarrow> ArchiveWriter \<times> error option" where
  "Close_data w =
     (let output0 = None;
          (w1, e1) = closeLayer TarLayer w;
          output1 = (if e1 \<noteq> None then e1 else output0);
          (w2, e2) = closeLayer GzipLayer w1;
          output2 = (if e2 \<noteq> None then e2 else output1);
          (w3, e3) = closeLayer FileLayer w2;
          output3 = (if e3 \<noteq> None then e3 else output2)
      in (w3, output3))"

text \<open>The errors that an error value carries: itself, and what it wraps or joins.\<close>

fun carried :: "error \<Rightarrow> error list" where
  "carried (Errno n) = [Errno n]"
| "carried (Msg m) = [Msg m]"
| "carried (Wrap m e) = Wrap m e # carried e"
| "carried (Joined es) = Joined es # concat (map carried es)"

section \<open>The file system\<close>

text \<open>
  A file system is a store from resolved paths to nodes.  A resolved path (\<open>key\<close>) is
  the list of the names from the root down; the root itself is the empty list and is
  always a directory.  A node is a directory, a regular file with its contents, or a
  symbolic link with its target string; each carries its permission bits.

  Paths are resolved lexically.  A symbolic link is followed only as the last element
  of a path, by \<open>Stat\<close>.  A call that would create or write through a symbolic link (a
  link standing where the directory of the new entry is expected, or where the file to
  be opened for writing is) is not described by this store: it returns \<open>EXLINK\<close>, which
  is not an error of the kernel.  Permission checks are not modelled (the process is
  taken to be allowed every access); the \<open>umask\<close> of the process is.
\<close>

type_synonym key = "string list"
type_synonym FileMode = "32 word"

datatype 'c fnode = FDir FileMode | FReg FileMode 'c | FLink string

type_synonym 'c store = "key \<Rightarrow> 'c fnode option"

definition pathKey :: "key \<Rightarrow> string \<Rightarrow> key" where
  "pathKey wdir p = cleanElems True ((if IsAbs p then [] else wdir) @ splitSlash p)"

definition nodeAt :: "'c store \<Rightarrow> key \<Rightarrow> 'c fnode option" where
  "nodeAt s k = (if k = [] then Some (FDir 0x1ED) else s k)"

definition Lstat :: "'c store \<Rightarrow> key \<Rightarrow> errno + 'c fnode" where
  "Lstat s k = (case nodeAt s k of None \<Rightarrow> Inl ENOENT | Some n \<Rightarrow> Inr n)"

definition linkKey :: "key \<Rightarrow> string \<Rightarrow> key" where
  "linkKey k target = pathKey (butlast k) target"

fun followLinks :: "nat \<Rightarrow> 'c store \<Rightarrow> key \<Rightarrow> errno + 'c fnode" where
  "followLinks 0 s k = Inl ELOOP"
| "followLinks (Suc n) s k =
     (case nodeAt s k of
        None \<Rightarrow> Inl ENOENT
      | Some (FLink target) \<Rightarrow> followLinks n s (linkKey k target)
      | Some nd \<Rightarrow> Inr nd)"

text \<open>\<open>os.Stat\<close> follows links; the kernel gives up after 40 of them.\<close>

definition Stat :: "'c store \<Rightarrow> key \<Rightarrow> errno + 'c fnode" where
  "Stat s k = followLinks (Suc 40) s k"

text \<open>
  \<open>syscallMode\<close> of package os: the permission bits of a \<open>FileMode\<close>, and the setuid,
  setgid and sticky bits moved to their places in the mode of the kernel.
\<close>

definition ModeSetuid :: FileMode where "ModeSetuid = 0x800000"
definition ModeSetgid :: FileMode where "ModeSetgid = 0x400000"
definition ModeSticky :: FileMode where "ModeSticky = 0x100000"

definition syscallMode :: "FileMode \<Rightarrow> FileMode" where
  "syscallMode i =
     (i AND 0x1FF)
     OR (if i AND ModeSetuid \<noteq> 0 then 0x800 else 0)
     OR (if i AND ModeSetgid \<noteq> 0 then 0x400 else 0)
     OR (if i AND ModeSticky \<noteq> 0 then 0x200 else 0)"

definition parentCheck :: "'c store \<Rightarrow> key \<Rightarrow> errno option" where
  "parentCheck s k =
     (case nodeAt s (butlast k) of
        None \<Rightarrow> Some ENOENT
      | Some (FDir _) \<Rightarrow> None
      | Some (FReg _ _) \<Rightarrow> Some ENOTDIR
      | Some (FLink _) \<Rightarrow> Some EXLINK)"

definition Mkdir :: "FileMode \<Rightarrow> 'c store \<Rightarrow> key \<Rightarrow> FileMode \<Rightarrow> 'c store \<times> errno option" where
  "Mkdir um s k perm =
     (case nodeAt s k of
        Some _ \<Rightarrow> (s, Some EEXIST)
      | None \<Rightarrow>
          (case parentCheck s k of
             Some e \<Rightarrow> (s, Some e)
           | None \<Rightarrow> (s(k \<mapsto> FDir (syscallMode perm AND NOT um)), None)))"

text \<open>
  \<open>os.MkdirAll\<close>, after its source: if \<open>Stat\<close> finds a directory it is done, and if it
  finds something else it fails; otherwise the parent is made first, then \<open>Mkdir\<close> is
  called, and a failure of \<open>Mkdir\<close> is forgiven when \<open>Lstat\<close> finds a directory.  The
  key is passed in reverse (the last name first), so that the parent is the tail.
\<close>

definition mkdirLast :: "FileMode \<Rightarrow> 'c store \<Rightarrow> key \<Rightarrow> FileMode \<Rightarrow> 'c store \<times> errno option" where
  "mkdirLast um s k perm =
     (case Mkdir um s k perm of
        (s1, None) \<Rightarrow> (s1, None)
      | (s1, Some e) \<Rightarrow>
          (case Lstat s1 k of
             Inr (FDir _) \<Rightarrow> (s1, None)
           | _ \<Rightarrow> (s1, Some e)))"

fun MkdirAllRev :: "FileMode \<Rightarrow> 'c store \<Rightarrow> key \<Rightarrow> FileMode \<Rightarrow> 'c store \<times> errno option" where
  "MkdirAllRev um s [] perm =
     (case Stat s [] of
        Inr (FDir _) \<Rightarrow> (s, None)
      | Inr _ \<Rightarrow> (s, Some ENOTDIR)
      | Inl _ \<Rightarrow> mkdirLast um s [] perm)"
| "MkdirAllRev um s (c # rest) perm =
     (case Stat s (rev (c # rest)) of
        Inr (FDir _) \<Rightarrow> (s, None)
      | Inr _ \<Rightarrow> (s, Some ENOTDIR)
      | Inl _ \<Rightarrow>
          (case MkdirAllRev um s rest perm of
             (s1, Some e) \<Rightarrow> (s1, Some e)
           | (s1, None) \<Rightarrow> mkdirLast um s1 (rev (c # rest)) perm))"

definition MkdirAll :: "FileMode \<Rightarrow> 'c store \<Rightarrow> key \<Rightarrow> FileMode \<Rightarrow> 'c store \<times> errno option" where
  "MkdirAll um s k perm = MkdirAllRev um s (rev k) perm"

text \<open>
  \<open>os.OpenFile\<close> with \<open>O_CREATE|O_WRONLY|O_TRUNC\<close> (and \<open>os.Create\<close>, which adds
  read access): an existing regular file is emptied and keeps its mode, a missing one
  is created empty in an existing directory.  \<open>blank\<close> is the empty contents.
\<close>

definition OpenFileTrunc :: "FileMode \<Rightarrow> 'c \<Rightarrow> 'c store \<Rightarrow> key \<Rightarrow> FileMode \<Rightarrow> 'c store \<times> errno option" where
  "OpenFileTrunc um blank s k perm =
     (case nodeAt s k of
        Some (FDir _) \<Rightarrow> (s, Some EISDIR)
      | Some (FLink _) \<Rightarrow> (s, Some EXLINK)
      | Some (FReg m _) \<Rightarrow> (s(k \<mapsto> FReg m blank), None)
      | None \<Rightarrow>
          (case parentCheck s k of
             Some e \<Rightarrow> (s, Some e)
           | None \<Rightarrow> (s(k \<mapsto> FReg (syscallMode perm AND NOT um) blank), None)))"

text \<open>Writing through an open file replaces what the file holds.\<close>

definition writeContents :: "'c store \<Rightarrow> key \<Rightarrow> 'c \<Rightarrow> 'c store" where
  "writeContents s k c =
     (case s k of
        Some (FReg m _) \<Rightarrow> s(k \<mapsto> FReg m c)
      | _ \<Rightarrow> s)"

definition Symlink :: "'c store \<Rightarrow> string \<Rightarrow> key \<Rightarrow> 'c store \<times> errno option" where
  "Symlink s target k =
     (case nodeAt s k of
        Some _ \<Rightarrow> (s, Some EEXIST)
      | None \<Rightarrow>
          (case parentCheck s k of
             Some e \<Rightarrow> (s, Some e)
           | None \<Rightarrow> (s(k \<mapsto> FLink target), None)))"

section \<open>Archives and the running program's world\<close>

text \<open>
  A file of the backup set is either a sequence of tar entries in a gzip stream, as
  \<open>tarReader.Next\<close> returns them (the container is taken to be lossless), or bytes that
  are no gzip stream.  \<open>TarGz es True\<close> ends with the end-of-archive marker;
  \<open>TarGz es False\<close> is cut off after its last entry.  An entry is its header and the
  bytes that follow it in the stream.
\<close>

datatype afile = NotGzip string | TarGz "entry list" bool

definition TypeReg :: char where "TypeReg = CHR ''0''"
definition TypeSymlink :: char where "TypeSymlink = CHR ''2''"
definition TypeDir :: char where "TypeDir = CHR ''5''"

text \<open>
  The world of a run: the file system of the locations, the file system of the backup
  set (kept apart: the model does not cover a backup directory that lies inside a
  location), the umask and the working directory of the process.
\<close>

record world =
  files :: "string store"
  backups :: "afile store"
  umask :: FileMode
  cwd :: key

definition liftErr :: "errno option \<Rightarrow> error option" where
  "liftErr r = map_option Errno r"

definition os_MkdirAll :: "world \<Rightarrow> string \<Rightarrow> FileMode \<Rightarrow> world \<times> error option" where
  "os_MkdirAll w path perm =
     (case MkdirAll (umask w) (files w) (pathKey (cwd w) path) perm of
        (s, r) \<Rightarrow> (w\<lparr>files := s\<rparr>, liftErr r))"

definition os_Symlink :: "world \<Rightarrow> string \<Rightarrow> string \<Rightarrow> world \<times> error option" where
  "os_Symlink w target path =
     (case Symlink (files w) target (pathKey (cwd w) path) of
        (s, r) \<Rightarrow> (w\<lparr>files := s\<rparr>, liftErr r))"

section \<open>Restore\<close>

record Location =
  Path :: string
  Ignore :: "string list"
  index :: "string list"
  totalSize :: "64 word"

text \<open>
  \<open>extractFile\<close>: the file is created or emptied with the mode given, and \<open>io.Copy\<close>
  copies the bytes of the entry, which are the \<open>Size\<close> bytes that the header declares;
  the copy fails on a stream that ends before them.
\<close>

definition extractFile :: "world \<Rightarrow> entry \<Rightarrow> string \<Rightarrow> FileMode \<Rightarrow> world \<times> error option" where
  "extractFile w ent path mode =
     (case OpenFileTrunc (umask w) [] (files w) (pathKey (cwd w) path) mode of
        (s, Some e) \<Rightarrow> (w\<lparr>files := s\<rparr>, Some (Errno e))
      | (s, None) \<Rightarrow>
          (w\<lparr>files := writeContents s (pathKey (cwd w) path) (take (nat (Size (fst ent))) (snd ent))\<rparr>,
           if length (snd ent) < nat (Size (fst ent)) then Some (Msg ''unexpected EOF'') else None))"

text \<open>The body of the loop of \<open>extractArchive\<close>, for one header.\<close>

definition extractEntry :: "world \<Rightarrow> string \<Rightarrow> entry \<Rightarrow> world \<times> error option" where
  "extractEntry w parentDir ent =
     (let hdr = fst ent;
          extractPath = Join parentDir (Name hdr);
          cleanPath = Clean extractPath;
          cleanParent = Clean parentDir
      in
      if \<not> HasPrefix cleanPath (cleanParent @ ''/'') \<and> cleanPath \<noteq> cleanParent then
        (w, Some (Msg (''illegal file path in archive: '' @ Name hdr)))
      else if Typeflag hdr = TypeDir then
        (case os_MkdirAll w extractPath (ucast (Mode hdr)) of
           (w1, Some e) \<Rightarrow> (w1, Some (Wrap (''failed to create directory '' @ extractPath) e))
         | (w1, None) \<Rightarrow> (w1, None))
      else if Typeflag hdr = TypeReg then
        (case os_MkdirAll w (Dir extractPath) 0x1ED of
           (w1, Some e) \<Rightarrow> (w1, Some (Wrap ''failed to create parent directory'' e))
         | (w1, None) \<Rightarrow>
             (case extractFile w1 ent extractPath (ucast (Mode hdr)) of
                (w2, Some e) \<Rightarrow> (w2, Some (Wrap (''failed to extract file '' @ extractPath) e))
              | (w2, None) \<Rightarrow> (w2, None)))
      else if Typeflag hdr = TypeSymlink then
        (case os_MkdirAll w (Dir extractPath) 0x1ED of
           (w1, Some e) \<Rightarrow> (w1, Some (Wrap ''failed to create parent directory'' e))
         | (w1, None) \<Rightarrow>
             (case os_Symlink w1 (Linkname hdr) extractPath of
                (w2, Some e) \<Rightarrow> (w2, Some (Wrap (''failed to create symlink '' @ extractPath) e))
              | (w2, None) \<Rightarrow> (w2, None)))
      else (w, None))"

text \<open>The loop: it stops at the first error; at the end of the entries it returns nil
  when the archive ends cleanly and the reader's error otherwise.\<close>

fun extractEntries :: "world \<Rightarrow> string \<Rightarrow> entry list \<Rightarrow> bool \<Rightarrow> world \<times> error option" where
  "extractEntries w parentDir [] complete =
     (w, if complete then None
         else Some (Wrap ''failed to read tar header'' (Msg ''unexpected EOF'')))"
| "extractEntries w parentDir (ent # ents) complete =
     (case extractEntry w parentDir ent of
        (w1, Some e) \<Rightarrow> (w1, Some e)
      | (w1, None) \<Rightarrow> extractEntries w1 parentDir ents complete)"

definition extractArchive :: "world \<Rightarrow> string \<Rightarrow> string \<Rightarrow> world \<times> error option" where
  "extractArchive w archivePath targetPath =
     (case Stat (backups w) (pathKey (cwd w) archivePath) of
        Inl e \<Rightarrow> (w, Some (Wrap ''failed to open archive'' (Errno e)))
      | Inr (FLink _) \<Rightarrow> (w, Some (Wrap ''failed to open archive'' (Errno ELOOP)))
      | Inr (FDir _) \<Rightarrow> (w, Some (Wrap ''failed to create gzip reader'' (Errno EISDIR)))
      | Inr (FReg _ (NotGzip bytes)) \<Rightarrow>
          (w, Some (Wrap ''failed to create gzip reader''
                      (Msg (if bytes = [] then ''EOF'' else ''gzip: invalid header''))))
      | Inr (FReg _ (TarGz ents complete)) \<Rightarrow>
          extractEntries w (Dir targetPath) ents complete)"

definition restoreLocation ::
  "environment \<Rightarrow> (string \<Rightarrow> string) \<Rightarrow> world \<Rightarrow> Location \<Rightarrow> string \<Rightarrow> world \<times> error option" where
  "restoreLocation env sha256hex w loc backupDir =
     (let archiveName = generateFilename sha256hex (Path loc);
          archivePath = Join backupDir archiveName
      in
      case normalizePath env (Path loc) of
        Inl e \<Rightarrow> (w, Some (Wrap ''failed to normalize path'' e))
      | Inr targetPath \<Rightarrow>
          if Stat (backups w) (pathKey (cwd w) archivePath) = Inl ENOENT then
            (w, Some (Msg (''archive not found: '' @ archivePath)))
          else
            (case extractArchive w archivePath targetPath of
               (w1, Some e) \<Rightarrow> (w1, Some (Wrap ''extraction failed'' e))
             | (w1, None) \<Rightarrow> (w1, None)))"

section \<open>The file system as a backup run reads it\<close>

text \<open>
  A backup run only reads.  What it reads is a tree: a regular file with mode and
  contents, a symbolic link with its target, a directory with mode, the size that
  \<open>Lstat\<close> reports for it, whether \<open>ReadDir\<close> succeeds on it, and its entries in the
  order in which \<open>ReadDir\<close> returns them; and \<open>TGone\<close>, an entry that \<open>ReadDir\<close> has
  listed (as a directory or not) and that has vanished since, so that every later call
  on it fails.
\<close>

datatype ftree =
    TFile FileMode string
  | TLink string
  | TDir FileMode "64 word" bool "(string \<times> ftree) list"
  | TGone bool

fun treeAt :: "ftree \<Rightarrow> key \<Rightarrow> ftree option" where
  "treeAt t [] = Some t"
| "treeAt (TDir m sz r cs) (n # k) =
     (case map_of cs n of None \<Rightarrow> None | Some c \<Rightarrow> treeAt c k)"
| "treeAt _ (n # k) = None"

definition nodeOf :: "ftree \<Rightarrow> string fnode option" where
  "nodeOf t =
     (case t of
        TFile m c \<Rightarrow> Some (FReg m c)
      | TLink target \<Rightarrow> Some (FLink target)
      | TDir m sz r cs \<Rightarrow> Some (FDir m)
      | TGone d \<Rightarrow> None)"

text \<open>The tree seen as a store, for \<open>os.Stat\<close> and \<open>os.Open\<close>.\<close>

definition treeStore :: "ftree \<Rightarrow> string store" where
  "treeStore t k = (case treeAt t k of None \<Rightarrow> None | Some n \<Rightarrow> nodeOf n)"

record FileInfo =
  fiName :: string
  fiSize :: "64 word"
  fiMode :: FileMode
  fiIsDir :: bool

record DirEntry =
  deName :: string
  deIsDir :: bool
  deInfo :: "error + FileInfo"

definition infoOf :: "string \<Rightarrow> ftree \<Rightarrow> error + FileInfo" where
  "infoOf n t =
     (case t of
        TFile m c \<Rightarrow> Inr \<lparr>fiName = n, fiSize = of_nat (length c), fiMode = m, fiIsDir = False\<rparr>
      | TLink target \<Rightarrow>
          Inr \<lparr>fiName = n, fiSize = of_nat (length target), fiMode = 0x1FF, fiIsDir = False\<rparr>
      | TDir m sz r cs \<Rightarrow> Inr \<lparr>fiName = n, fiSize = sz, fiMode = m, fiIsDir = True\<rparr>
      | TGone d \<Rightarrow> Inl (Errno ENOENT))"

definition isDirTree :: "ftree \<Rightarrow> bool" where
  "isDirTree t = (case t of TDir m sz r cs \<Rightarrow> True | TGone d \<Rightarrow> d | _ \<Rightarrow> False)"

definition entryOf :: "string \<Rightarrow> ftree \<Rightarrow> DirEntry" where
  "entryOf n t = \<lparr>deName = n, deIsDir = isDirTree t, deInfo = infoOf n t\<rparr>"

section \<open>filepath.WalkDir\<close>

text \<open>\<open>filepath.SkipDir\<close> is the error value \<open>errors.New("skip this directory")\<close>.\<close>

definition SkipDir :: error where
  "SkipDir = Msg ''skip this directory''"

text \<open>
  \<open>walkDir\<close> after its source.  The callback \<open>fn\<close> gets the path, the entry and an
  error, and the state it may change (the location that the closure of \<open>scan\<close>
  captures).  It is called first with no error; a directory is then read, and a failure
  of \<open>ReadDir\<close> is reported to the callback in a second call.  \<open>SkipDir\<close> from the
  callback on a directory skips it; \<open>SkipDir\<close> from an entry of a directory ends the loop
  over that directory.
\<close>

type_synonym 's WalkDirFunc = "string \<Rightarrow> DirEntry \<Rightarrow> error option \<Rightarrow> 's \<Rightarrow> 's \<times> error option"

definition skipped :: "DirEntry \<Rightarrow> error \<Rightarrow> error option" where
  "skipped d err = (if err = SkipDir \<and> deIsDir d then None else Some err)"

fun walkDir :: "'s WalkDirFunc \<Rightarrow> string \<Rightarrow> string \<Rightarrow> ftree \<Rightarrow> 's \<Rightarrow> 's \<times> error option"
  and walkEntries :: "'s WalkDirFunc \<Rightarrow> string \<Rightarrow> (string \<times> ftree) list \<Rightarrow> 's \<Rightarrow> 's \<times> error option"
where
  "walkDir fn path n (TDir m sz readable cs) st =
     (case fn path (entryOf n (TDir m sz readable cs)) None st of
        (st1, Some err) \<Rightarrow> (st1, skipped (entryOf n (TDir m sz readable cs)) err)
      | (st1, None) \<Rightarrow>
          if readable then walkEntries fn path cs st1
          else
            (case fn path (entryOf n (TDir m sz readable cs)) (Some (Errno EACCES)) st1 of
               (st2, Some err) \<Rightarrow> (st2, skipped (entryOf n (TDir m sz readable cs)) err)
             | (st2, None) \<Rightarrow> (st2, None)))"
| "walkDir fn path n (TGone d) st =
     (case fn path (entryOf n (TGone d)) None st of
        (st1, Some err) \<Rightarrow> (st1, skipped (entryOf n (TGone d)) err)
      | (st1, None) \<Rightarrow>
          if \<not> d then (st1, None)
          else
            (case fn path (entryOf n (TGone d)) (Some (Errno ENOENT)) st1 of
               (st2, Some err) \<Rightarrow> (st2, skipped (entryOf n (TGone d)) err)
             | (st2, None) \<Rightarrow> (st2, None)))"
| "walkDir fn path n (TFile m c) st =
     (case fn path (entryOf n (TFile m c)) None st of
        (st1, Some err) \<Rightarrow> (st1, skipped (entryOf n (TFile m c)) err)
      | (st1, None) \<Rightarrow> (st1, None))"
| "walkDir fn path n (TLink target) st =
     (case fn path (entryOf n (TLink target)) None st of
        (st1, Some err) \<Rightarrow> (st1, skipped (entryOf n (TLink target)) err)
      | (st1, None) \<Rightarrow> (st1, None))"
| "walkEntries fn path [] st = (st, None)"
| "walkEntries fn path (e # es) st =
     (case walkDir fn (Join path (fst e)) (fst e) (snd e) st of
        (st1, Some err) \<Rightarrow> (if err = SkipDir then (st1, None) else (st1, Some err))
      | (st1, None) \<Rightarrow> walkEntries fn path es st1)"

text \<open>
  \<open>WalkDir\<close>: \<open>Lstat\<close> of the root; when it fails the callback is called with the error
  (and with a nil entry, which the callbacks of this program do not look at: the model
  passes an entry without information).  \<open>SkipDir\<close> as the final result is nil.
\<close>

definition WalkDir :: "'s WalkDirFunc \<Rightarrow> string \<Rightarrow> ftree option \<Rightarrow> 's \<Rightarrow> 's \<times> error option" where
  "WalkDir fn root rootNode st =
     (case (case rootNode of
              None \<Rightarrow> fn root \<lparr>deName = [], deIsDir = False, deInfo = Inl (Errno ENOENT)\<rparr>
                         (Some (Errno ENOENT)) st
            | Some (TGone d) \<Rightarrow> fn root \<lparr>deName = [], deIsDir = False, deInfo = Inl (Errno ENOENT)\<rparr>
                         (Some (Errno ENOENT)) st
            | Some t \<Rightarrow> walkDir fn root (Base root) t st) of
        (st1, Some err) \<Rightarrow> (if err = SkipDir then (st1, None) else (st1, Some err))
      | (st1, None) \<Rightarrow> (st1, None))"

section \<open>Location.scan\<close>

text \<open>The callback of \<open>scan\<close> (the revision with \<open>totalSize\<close>), and \<open>scan\<close>.  The
  progress view takes no part in the result and is left out.\<close>

definition scanFn :: "Location WalkDirFunc" where
  "scanFn path d err l =
     (case err of
        Some e \<Rightarrow> (l, Some e)
      | None \<Rightarrow>
          if path = Path l then (l, None)
          else if deName d \<in> set (Ignore l) then
            (if deIsDir d then (l, Some SkipDir) else (l, None))
          else
            (let l1 = l\<lparr>index := index l @ [path]\<rparr> in
             if \<not> deIsDir d then
               (case deInfo d of
                  Inr info \<Rightarrow> (l1\<lparr>totalSize := totalSize l1 + fiSize info\<rparr>, None)
                | Inl _ \<Rightarrow> (l1, None))
             else (l1, None)))"

definition scan :: "ftree \<Rightarrow> key \<Rightarrow> Location \<Rightarrow> Location \<times> error option" where
  "scan fs wdir l =
     (case WalkDir scanFn (Path l) (treeAt fs (pathKey wdir (Path l)))
             (l\<lparr>index := [], totalSize := 0\<rparr>) of
        (l1, Some e) \<Rightarrow> (l1, Some (Wrap ''directory walk failed'' e))
      | (l1, None) \<Rightarrow> (l1, None))"

text \<open>The revision of \<open>scan\<close> without a size (unnamed part 003): the same callback, and
  nothing is added up.\<close>

definition scanFn_part003 :: "Location WalkDirFunc" where
  "scanFn_part003 path d err l =
     (case err of
        Some e \<Rightarrow> (l, Some e)
      | None \<Rightarrow>
          if path = Path l then (l, None)
          else if deName d \<in> set (Ignore l) then
            (if deIsDir d then (l, Some SkipDir) else (l, None))
          else (l\<lparr>index := index l @ [path]\<rparr>, None))"

definition scan_part003 :: "ftree \<Rightarrow> key \<Rightarrow> Location \<Rightarrow> Location \<times> error option" where
  "scan_part003 fs wdir l =
     (case WalkDir scanFn_part003 (Path l) (treeAt fs (pathKey wdir (Path l)))
             (l\<lparr>index := []\<rparr>) of
        (l1, Some e) \<Rightarrow> (l1, Some (Wrap ''directory walk failed'' e))
      | (l1, None) \<Rightarrow> (l1, None))"

text \<open>
  \<open>scan\<close> of internal/backup/data.go.  Its \<open>Location\<close> keeps \<open>size\<close> and an index of
  entries with their \<open>FileInfo\<close>; the callback asks for the \<open>FileInfo\<close> first, and adds
  the size of every entry it keeps.  \<open>size\<close> is not reset.
\<close>

record IndexEntry =
  iePath :: string
  ieInfo :: FileInfo

record Location_data =
  dPath :: string
  dIgnore :: "string list"
  dsize :: "64 word"
  dindex :: "IndexEntry list"

definition scanFn_data :: "Location_data WalkDirFunc" where
  "scanFn_data path d werr l =
     (case werr of
        Some e \<Rightarrow> (l, Some e)
      | None \<Rightarrow>
          if path = dPath l then (l, None)
          else
            (case deInfo d of
               Inl e \<Rightarrow> (l, Some e)
             | Inr info \<Rightarrow>
                 if fiName info \<in> set (dIgnore l) then
                   (if fiIsDir info then (l, Some SkipDir) else (l, None))
                 else
                   (l\<lparr>dsize := dsize l + fiSize info,
                      dindex := dindex l @ [\<lparr>iePath = path, ieInfo = info\<rparr>]\<rparr>, None)))"

definition scan_data :: "ftree \<Rightarrow> key \<Rightarrow> Location_data \<Rightarrow> Location_data \<times> error option" where
  "scan_data fs wdir l =
     (case WalkDir scanFn_data (dPath l) (treeAt fs (pathKey wdir (dPath l)))
             (l\<lparr>dindex := []\<rparr>) of
        (l1, Some e) \<Rightarrow> (l1, Some (Wrap ''failed to walk directory'' e))
      | (l1, None) \<Rightarrow> (l1, None))"

section \<open>Writing a location to its archive\<close>

text \<open>
  \<open>filepath.Rel\<close>: both paths are cleaned; the elements they share at the start are
  dropped; every element left of the base becomes \<open>..\<close>, followed by what is left of
  the target.  It fails when only one of the two is rooted, and when the base would
  have to leave a \<open>..\<close> of its own.
\<close>

definition elems :: "string \<Rightarrow> string list" where
  "elems p = filter (\<lambda>c. c \<noteq> []) (splitSlash p)"

fun dropCommon :: "string list \<Rightarrow> string list \<Rightarrow> string list \<times> string list" where
  "dropCommon (b # bs) (t # ts) = (if b = t then dropCommon bs ts else (b # bs, t # ts))"
| "dropCommon bs ts = (bs, ts)"

definition Rel :: "string \<Rightarrow> string \<Rightarrow> error + string" where
  "Rel basepath targpath =
     (let base = Clean basepath; targ = Clean targpath in
      if targ = base then Inr ''.''
      else
        (let base1 = (if base = ''.'' then [] else base) in
         if IsAbs base1 \<noteq> IsAbs targ then
           Inl (Msg (''Rel: can't make '' @ targpath @ '' relative to '' @ basepath))
         else
           (case dropCommon (elems base1) (elems targ) of
              (bs, ts) \<Rightarrow>
                if bs \<noteq> [] \<and> hd bs = ''..'' then
                  Inl (Msg (''Rel: can't make '' @ targpath @ '' relative to '' @ basepath))
                else Inr (joinSlash (replicate (length bs) ''..'' @ ts)))))"

text \<open>
  \<open>tar.FileInfoHeader(info, "")\<close> for what \<open>os.Stat\<close> has found: the type, the
  permission bits (with the setuid, setgid and sticky bits), the size of a regular
  file, and the empty link name that the program passes.  The name is set by the
  caller.
\<close>

definition FileInfoHeader :: "string fnode \<Rightarrow> header" where
  "FileInfoHeader nd =
     (case nd of
        FReg m c \<Rightarrow> \<lparr>Name = [], Typeflag = TypeReg, Mode = ucast (m AND 0xFFF),
                      Size = int (length c), Linkname = []\<rparr>
      | FDir m \<Rightarrow> \<lparr>Name = [], Typeflag = TypeDir, Mode = ucast (m AND 0xFFF),
                    Size = 0, Linkname = []\<rparr>
      | FLink target \<Rightarrow> \<lparr>Name = [], Typeflag = TypeSymlink, Mode = 0x1FF,
                          Size = 0, Linkname = []\<rparr>)"

definition isDirNode :: "'c fnode \<Rightarrow> bool" where
  "isDirNode nd = (case nd of FDir m \<Rightarrow> True | _ \<Rightarrow> False)"

text \<open>What \<open>os.Open\<close> and \<open>io.Copy\<close> read from a path: the bytes of the regular file
  that the path leads to; reading a directory fails.\<close>

definition readAll :: "string store \<Rightarrow> key \<Rightarrow> error + string" where
  "readAll s k =
     (case Stat s k of
        Inl e \<Rightarrow> Inl (Errno e)
      | Inr (FReg m c) \<Rightarrow> Inr c
      | Inr _ \<Rightarrow> Inl (Errno EISDIR))"

text \<open>\<open>WriteHeader\<close> starts an entry; \<open>Write\<close> (through \<open>io.Copy\<close>) gives it its bytes.\<close>

definition WriteHeader :: "ArchiveWriter \<Rightarrow> header \<Rightarrow> ArchiveWriter \<times> error option" where
  "WriteHeader aw hdr = (aw\<lparr>awEntries := awEntries aw @ [(hdr, [])]\<rparr>, None)"

definition Write :: "ArchiveWriter \<Rightarrow> string \<Rightarrow> ArchiveWriter \<times> error option" where
  "Write aw bytes =
     (case awEntries aw of
        [] \<Rightarrow> (aw, Some (Msg ''archive/tar: write too long''))
      | es \<Rightarrow>
          if Size (fst (last es)) < int (length (snd (last es) @ bytes)) then
            (aw, Some (Msg ''archive/tar: write too long''))
          else (aw\<lparr>awEntries := butlast es @ [(fst (last es), snd (last es) @ bytes)]\<rparr>, None))"

definition copyFileToArchive :: "ftree \<Rightarrow> key \<Rightarrow> ArchiveWriter \<Rightarrow> string \<Rightarrow> ArchiveWriter \<times> error option" where
  "copyFileToArchive fs wdir aw path =
     (case readAll (treeStore fs) (pathKey wdir path) of
        Inl e \<Rightarrow> (aw, Some e)
      | Inr bytes \<Rightarrow> Write aw bytes)"

definition writeEntryNoMessage ::
  "ftree \<Rightarrow> key \<Rightarrow> Location \<Rightarrow> ArchiveWriter \<Rightarrow> string \<Rightarrow> ArchiveWriter \<times> error option" where
  "writeEntryNoMessage fs wdir l aw path =
     (case Stat (treeStore fs) (pathKey wdir path) of
        Inl e \<Rightarrow> (aw, Some (Errno e))
      | Inr info \<Rightarrow>
          (case Rel (Path l) path of
             Inl e \<Rightarrow> (aw, Some e)
           | Inr relPath \<Rightarrow>
               (let hdr = (FileInfoHeader info)\<lparr>Name := Join (Base (Path l)) relPath\<rparr> in
                case WriteHeader aw hdr of
                  (aw1, Some e) \<Rightarrow> (aw1, Some e)
                | (aw1, None) \<Rightarrow>
                    if \<not> isDirNode info then copyFileToArchive fs wdir aw1 path
                    else (aw1, None))))"

text \<open>\<open>writeToArchive\<close>: every path of the index in turn, stopping at the first
  error.  (\<open>writeEntry\<close> only sets the message of the progress view before it calls
  \<open>writeEntryNoMessage\<close>.)\<close>

fun writeEntries ::
  "ftree \<Rightarrow> key \<Rightarrow> Location \<Rightarrow> ArchiveWriter \<Rightarrow> string list \<Rightarrow> ArchiveWriter \<times> error option" where
  "writeEntries fs wdir l aw [] = (aw, None)"
| "writeEntries fs wdir l aw (path # paths) =
     (case writeEntryNoMessage fs wdir l aw path of
        (aw1, Some e) \<Rightarrow> (aw1, Some (Wrap (''failed to write '' @ path) e))
      | (aw1, None) \<Rightarrow> writeEntries fs wdir l aw1 paths)"

definition writeToArchive ::
  "ftree \<Rightarrow> key \<Rightarrow> Location \<Rightarrow> ArchiveWriter \<Rightarrow> ArchiveWriter \<times> error option" where
  "writeToArchive fs wdir l aw = writeEntries fs wdir l aw (index l)"

section \<open>Opening the archive writer\<close>

definition DefaultCompression :: int where
  "DefaultCompression = - 1"

text \<open>\<open>pgzip.NewWriterLevel\<close> refuses a level outside -2 .. 9.\<close>

definition NewWriterLevel :: "int \<Rightarrow> error option" where
  "NewWriterLevel level =
     (if level < - 2 \<or> 9 < level then Some (Msg ''gzip: invalid compression level'') else None)"

text \<open>
  \<open>newArchiveWriter\<close> (and \<open>openArchiveWriter\<close> of data.go, which is the same code):
  \<open>os.Create\<close>, then the gzip writer, then the tar writer.  \<open>faults\<close> is what the
  layers of this writer will answer when they are closed.
\<close>

definition os_Create :: "world \<Rightarrow> string \<Rightarrow> world \<times> error option" where
  "os_Create w path =
     (case OpenFileTrunc (umask w) (NotGzip []) (backups w) (pathKey (cwd w) path) 0x1B6 of
        (s, r) \<Rightarrow> (w\<lparr>backups := s\<rparr>, liftErr r))"

definition newArchiveWriter ::
  "(layer \<Rightarrow> error option) \<Rightarrow> world \<Rightarrow> string \<Rightarrow> world \<times> (error + ArchiveWriter)" where
  "newArchiveWriter faults w path =
     (case os_Create w path of
        (w1, Some e) \<Rightarrow> (w1, Inl e)
      | (w1, None) \<Rightarrow>
          (case NewWriterLevel DefaultCompression of
             Some e \<Rightarrow> (w1, Inl e)
           | None \<Rightarrow>
               (w1, Inr \<lparr>awPath = path, awEntries = [],
                         tarCloseErr = faults TarLayer, gzipCloseErr = faults GzipLayer,
                         fileCloseErr = faults FileLayer, closedLayers = []\<rparr>)))"

text \<open>
  The deferred \<open>writer.Close()\<close> of \<open>backupLocation\<close>: the layers are closed, the result
  is dropped, and the file holds the entries written, with the end-of-archive marker
  when every entry has got the bytes that its header declares.
\<close>

definition entriesComplete :: "entry list \<Rightarrow> bool" where
  "entriesComplete es = list_all (\<lambda>e. int (length (snd e)) = Size (fst e)) es"

definition deferredClose :: "world \<Rightarrow> ArchiveWriter \<Rightarrow> world" where
  "deferredClose w aw =
     (case Close aw of
        (aw1, _) \<Rightarrow>
          w\<lparr>backups := writeContents (backups w) (pathKey (cwd w) (awPath aw1))
                          (TarGz (awEntries aw1) (entriesComplete (awEntries aw1)))\<rparr>)"

section \<open>backupLocation\<close>

text \<open>\<open>backupLocation\<close> of the revision with the progress view (unnamed part 000): the
  file name is generated from the path as the configuration gives it.\<close>

definition backupLocation ::
  "environment \<Rightarrow> (string \<Rightarrow> string) \<Rightarrow> (layer \<Rightarrow> error option) \<Rightarrow> ftree \<Rightarrow> world \<Rightarrow>
     Location \<Rightarrow> string \<Rightarrow> world \<times> error option" where
  "backupLocation env sha256hex faults fs w loc outputDir =
     (let filename = generateFilename sha256hex (Path loc);
          archivePath = Join outputDir filename
      in
      case normalizePath env (Path loc) of
        Inl e \<Rightarrow> (w, Some e)
      | Inr path \<Rightarrow>
          (case scan fs (cwd w) (loc\<lparr>Path := path\<rparr>) of
             (loc1, Some e) \<Rightarrow> (w, Some (Wrap ''scan failed'' e))
           | (loc1, None) \<Rightarrow>
               (case newArchiveWriter faults w archivePath of
                  (w1, Inl e) \<Rightarrow> (w1, Some (Wrap ''failed to create archive'' e))
                | (w1, Inr writer) \<Rightarrow>
                    (case writeToArchive fs (cwd w) loc1 writer of
                       (writer1, Some e) \<Rightarrow> (deferredClose w1 writer1, Some (Wrap ''write failed'' e))
                     | (writer1, None) \<Rightarrow> (deferredClose w1 writer1, None)))))"

text \<open>\<open>backupLocation\<close> of unnamed part 003: the path is normalized first, and the file
  name is generated from the normalized path.\<close>

definition backupLocation_part003 ::
  "environment \<Rightarrow> (string \<Rightarrow> string) \<Rightarrow> (layer \<Rightarrow> error option) \<Rightarrow> ftree \<Rightarrow> world \<Rightarrow>
     Location \<Rightarrow> string \<Rightarrow> world \<times> error option" where
  "backupLocation_part003 env sha256hex faults fs w loc outputDir =
     (case normalizePath env (Path loc) of
        Inl e \<Rightarrow> (w, Some e)
      | Inr path \<Rightarrow>
          (case scan_part003 fs (cwd w) (loc\<lparr>Path := path\<rparr>) of
             (loc1, Some e) \<Rightarrow> (w, Some (Wrap ''scan failed'' e))
           | (loc1, None) \<Rightarrow>
               (let filename = generateFilename sha256hex (Path loc1);
                    archivePath = Join outputDir filename
                in
                case newArchiveWriter faults w archivePath of
                  (w1, Inl e) \<Rightarrow> (w1, Some (Wrap ''failed to create archive'' e))
                | (w1, Inr writer) \<Rightarrow>
                    (case writeToArchive fs (cwd w) loc1 writer of
                       (writer1, Some e) \<Rightarrow> (deferredClose w1 writer1, Some (Wrap ''write failed'' e))
                     | (writer1, None) \<Rightarrow> (deferredClose w1 writer1, None)))))"

section \<open>normalizePath: when the home shorthand is expanded\<close>

text \<open>
  C10.  \<open>normalizePath\<close> expands the home shorthand exactly when the input has at least
  two characters and starts with \<open>~/\<close>.  An input that is \<open>~\<close> alone, or \<open>~\<close>
  followed by a character other than the separator, is not expanded: it is joined to the
  working directory.  An error is returned only when the home directory cannot be found
  for an input starting with \<open>~/\<close>, or when \<open>filepath.Abs\<close> fails (which it does only
  when the working directory cannot be read).
\<close>

theorem normalizePath_home_shorthand:
  "(normalizePath env path =
      (if 2 \<le> length path \<and> take 2 path = ''~/'' then
         (case UserHomeDir env of
            Inl e \<Rightarrow> Inl (Wrap ''failed to get home dir'' e)
          | Inr home \<Rightarrow>
              (case Abs env (Join home (drop 2 path)) of
                 Inl e \<Rightarrow> Inl (Wrap ''failed to get absolute path'' e)
               | Inr p \<Rightarrow> Inr p))
       else
         (case Abs env path of
            Inl e \<Rightarrow> Inl (Wrap ''failed to get absolute path'' e)
          | Inr p \<Rightarrow> Inr p)))
   \<and> ((path = ''~'' \<or> (\<exists>c rest. path = CHR ''~'' # c # rest \<and> c \<noteq> CHR ''/'')) \<longrightarrow>
        normalizePath env path =
          (case Getwd env of
             Inl e \<Rightarrow> Inl (Wrap ''failed to get absolute path'' e)
           | Inr wd \<Rightarrow> Inr (Join wd path)))
   \<and> (\<forall>err. normalizePath env path = Inl err \<longrightarrow>
         (take 2 path = ''~/'' \<and>
            (\<exists>e. UserHomeDir env = Inl e \<and> err = Wrap ''failed to get home dir'' e))
         \<or> (\<exists>e p. Abs env p = Inl e \<and> err = Wrap ''failed to get absolute path'' e
               \<and> Getwd env = Inl e))"
proof (intro conjI)
  show "normalizePath env path =
      (if 2 \<le> length path \<and> take 2 path = ''~/'' then
         (case UserHomeDir env of
            Inl e \<Rightarrow> Inl (Wrap ''failed to get home dir'' e)
          | Inr home \<Rightarrow>
              (case Abs env (Join home (drop 2 path)) of
                 Inl e \<Rightarrow> Inl (Wrap ''failed to get absolute path'' e)
               | Inr p \<Rightarrow> Inr p))
       else
         (case Abs env path of
            Inl e \<Rightarrow> Inl (Wrap ''failed to get absolute path'' e)
          | Inr p \<Rightarrow> Inr p))"
    by (simp add: normalizePath_def)
next
  show "(path = ''~'' \<or> (\<exists>c rest. path = CHR ''~'' # c # rest \<and> c \<noteq> CHR ''/'')) \<longrightarrow>
        normalizePath env path =
          (case Getwd env of
             Inl e \<Rightarrow> Inl (Wrap ''failed to get absolute path'' e)
           | Inr wd \<Rightarrow> Inr (Join wd path))"
    by (auto simp: normalizePath_def Abs_def IsAbs_def split: sum.splits)
next
  show "\<forall>err. normalizePath env path = Inl err \<longrightarrow>
         (take 2 path = ''~/'' \<and>
            (\<exists>e. UserHomeDir env = Inl e \<and> err = Wrap ''failed to get home dir'' e))
         \<or> (\<exists>e p. Abs env p = Inl e \<and> err = Wrap ''failed to get absolute path'' e
               \<and> Getwd env = Inl e)"
    by (auto simp: normalizePath_def Abs_def split: sum.splits if_splits)
qed

theorem normalizePath_home_shorthand_witness:
  "normalizePath \<lparr>UserHomeDir = Inr ''/home/u'', Getwd = Inr ''/work''\<rparr> ''~'' = Inr ''/work/~''
   \<and> normalizePath \<lparr>UserHomeDir = Inr ''/home/u'', Getwd = Inr ''/work''\<rparr> ''~x'' = Inr ''/work/~x''"
proof -
  let ?env = "\<lparr>UserHomeDir = Inr ''/home/u'', Getwd = Inr ''/work''\<rparr>"
  have j: "Join ''/work'' ''~'' = ''/work/~''" "Join ''/work'' ''~x'' = ''/work/~x''"
    by (simp_all add: Join_def Clean_def IsAbs_def cleanElems_def cleanStep_def)
  have "normalizePath ?env ''~'' = Inr (Join ''/work'' ''~'')"
    using normalizePath_home_shorthand [of ?env "''~''", THEN conjunct2, THEN conjunct1]
    by simp
  moreover have "normalizePath ?env ''~x'' = Inr (Join ''/work'' ''~x'')"
    using normalizePath_home_shorthand [of ?env "''~x''", THEN conjunct2, THEN conjunct1]
    by simp
  ultimately show ?thesis by (simp add: j)
qed

section \<open>Close: the order of release and the errors returned\<close>

lemma closeLayer_simps:
  "fst (closeLayer l w) = w\<lparr>closedLayers := closedLayers w @ [l]\<rparr>"
  "snd (closeLayer TarLayer w) = tarCloseErr w"
  "snd (closeLayer GzipLayer w) = gzipCloseErr w"
  "snd (closeLayer FileLayer w) = fileCloseErr w"
  by (simp_all add: closeLayer_def)

lemma Close_result:
  "Close w =
     (w\<lparr>closedLayers := closedLayers w @ [TarLayer, GzipLayer, FileLayer]\<rparr>,
      errors_Join [tarCloseErr w, gzipCloseErr w, fileCloseErr w])"
  by (simp add: Close_def closeLayer_def)

lemma Close_data_result:
  "Close_data w =
     (w\<lparr>closedLayers := closedLayers w @ [TarLayer, GzipLayer, FileLayer]\<rparr>,
      (if fileCloseErr w \<noteq> None then fileCloseErr w
       else if gzipCloseErr w \<noteq> None then gzipCloseErr w
       else tarCloseErr w))"
  by (simp add: Close_data_def closeLayer_def)

lemma carried_self: "e \<in> set (carried e)"
  by (cases e) simp_all

lemma errors_Join_carries:
  assumes "Some e \<in> set errs"
  shows "\<exists>j. errors_Join errs = Some j \<and> e \<in> set (carried j)"
proof -
  from assms have mem: "e \<in> set (List.map_filter id errs)"
    by (auto simp: List.map_filter_def intro!: image_eqI [where x = "Some e"])
  then have ne: "List.map_filter id errs \<noteq> []"
    by auto
  have "e \<in> set (carried (Joined (List.map_filter id errs)))"
    using mem carried_self [of e] by auto
  with ne show ?thesis
    by (simp add: errors_Join_def Let_def)
qed

text \<open>
  C5, on \<open>Close\<close> of internal/backup/data.go.  The layers are closed in the order tar,
  gzip, file, but when the tar writer and the file both fail to close, the error of the
  file replaces the error of the tar writer: the caller gets the last error only, and
  the first one is not carried by it.
\<close>

theorem Close_data_keeps_last_error_only:
  "Close_data \<lparr>awPath = ''/backup/a.tar.gz'', awEntries = [],
       tarCloseErr = Some (Msg ''archive/tar: missed writing 3 bytes''),
       gzipCloseErr = None, fileCloseErr = Some (Errno EIO), closedLayers = []\<rparr>
   = (\<lparr>awPath = ''/backup/a.tar.gz'', awEntries = [],
       tarCloseErr = Some (Msg ''archive/tar: missed writing 3 bytes''),
       gzipCloseErr = None, fileCloseErr = Some (Errno EIO),
       closedLayers = [TarLayer, GzipLayer, FileLayer]\<rparr>,
      Some (Errno EIO))
   \<and> Msg ''archive/tar: missed writing 3 bytes'' \<notin> set (carried (Errno EIO))"
  by (simp add: Close_data_result)

text \<open>
  The revision of \<open>Close\<close> written with \<open>errors.Join\<close>: the layers are closed in the
  order tar, gzip, file; the result is nil exactly when every layer closed without
  error; and every layer's error is carried by the error returned.
\<close>

theorem Close_aggregates_all_errors:
  "closedLayers (fst (Close w)) = closedLayers w @ [TarLayer, GzipLayer, FileLayer]
   \<and> (snd (Close w) = None \<longleftrightarrow>
        tarCloseErr w = None \<and> gzipCloseErr w = None \<and> fileCloseErr w = None)
   \<and> (\<forall>e. tarCloseErr w = Some e \<or> gzipCloseErr w = Some e \<or> fileCloseErr w = Some e \<longrightarrow>
         (\<exists>j. snd (Close w) = Some j \<and> e \<in> set (carried j)))"
proof (intro conjI allI impI)
  show "closedLayers (fst (Close w)) = closedLayers w @ [TarLayer, GzipLayer, FileLayer]"
    by (simp add: Close_result)
next
  show "snd (Close w) = None \<longleftrightarrow>
        tarCloseErr w = None \<and> gzipCloseErr w = None \<and> fileCloseErr w = None"
    by (auto simp: Close_result errors_Join_def List.map_filter_def Let_def)
next
  fix e
  assume "tarCloseErr w = Some e \<or> gzipCloseErr w = Some e \<or> fileCloseErr w = Some e"
  then have "Some e \<in> set [tarCloseErr w, gzipCloseErr w, fileCloseErr w]"
    by auto
  from errors_Join_carries [OF this]
  show "\<exists>j. snd (Close w) = Some j \<and> e \<in> set (carried j)"
    by (simp add: Close_result)
qed

theorem Close_aggregates_all_errors_witness:
  "snd (Close \<lparr>awPath = ''/backup/a.tar.gz'', awEntries = [],
       tarCloseErr = Some (Msg ''archive/tar: missed writing 3 bytes''),
       gzipCloseErr = None, fileCloseErr = Some (Errno EIO), closedLayers = []\<rparr>)
   = Some (Joined [Msg ''archive/tar: missed writing 3 bytes'', Errno EIO])
   \<and> (\<exists>j. snd (Close \<lparr>awPath = ''/backup/a.tar.gz'', awEntries = [],
       tarCloseErr = Some (Msg ''archive/tar: missed writing 3 bytes''),
       gzipCloseErr = None, fileCloseErr = Some (Errno EIO), closedLayers = []\<rparr>) = Some j
         \<and> Msg ''archive/tar: missed writing 3 bytes'' \<in> set (carried j)
         \<and> Errno EIO \<in> set (carried j))"
proof -
  let ?w = "\<lparr>awPath = ''/backup/a.tar.gz'', awEntries = [],
       tarCloseErr = Some (Msg ''archive/tar: missed writing 3 bytes''),
       gzipCloseErr = None, fileCloseErr = Some (Errno EIO), closedLayers = []\<rparr>"
  have v: "snd (Close ?w) = Some (Joined [Msg ''archive/tar: missed writing 3 bytes'', Errno EIO])"
    by (simp add: Close_result errors_Join_def List.map_filter_def)
  from Close_aggregates_all_errors [of ?w]
  have "\<exists>j. snd (Close ?w) = Some j \<and> Msg ''archive/tar: missed writing 3 bytes'' \<in> set (carried j)"
    by simp
  with v show ?thesis by simp
qed

end
